theory Spec2Isabelle
  imports Main "HOL-Library.AList" "HOL-Library.DAList"
begin

section \<open>Python values and dictionaries\<close>

text \<open>
  The acceptors of \<^verbatim>\<open>LicdataArtifactApp\<close> receive \<^verbatim>\<open>options: Dict\<close>: string keys bound to
  the scalars a command line or a decoded bus signal delivers. \<^verbatim>\<open>None\<close> is a value of its
  own, so that a key bound to \<^verbatim>\<open>None\<close> and an absent key stay different dictionaries.
\<close>

datatype pyval = PyNone | PyStr string | PyBool bool | PyInt int

text \<open>
  A Python \<^verbatim>\<open>dict\<close> keeps its keys unique and in insertion order: an association list
  with distinct keys. The type has no inhabitant with a repeated key.
\<close>

type_synonym pydict = "(string, pyval) alist"

definition py_empty :: pydict where
  \<comment> \<open>\<^verbatim>\<open>{}\<close>\<close>
  "py_empty = DAList.empty"

definition py_setitem :: "pydict \<Rightarrow> string \<Rightarrow> pyval \<Rightarrow> pydict" where
  \<comment> \<open>\<^verbatim>\<open>d[key] = value\<close>: a key already present keeps its place, a new one goes last.\<close>
  "py_setitem d key val = DAList.update key val d"

definition py_items :: "pydict \<Rightarrow> (string \<times> pyval) list" where
  \<comment> \<open>\<^verbatim>\<open>d.items()\<close>, in iteration order.\<close>
  "py_items d = DAList.impl_of d"

definition py_keys :: "pydict \<Rightarrow> string set" where
  \<comment> \<open>\<^verbatim>\<open>d.keys()\<close>, as a set.\<close>
  "py_keys d = fst ` set (py_items d)"

definition py_lookup :: "pydict \<Rightarrow> string \<Rightarrow> pyval option" where
  \<comment> \<open>The binding of a key: \<open>Some\<close> its value, \<open>None\<close> when the key is absent.\<close>
  "py_lookup d key = DAList.lookup d key"

definition py_get :: "pydict \<Rightarrow> string \<Rightarrow> pyval \<Rightarrow> pyval" where
  \<comment> \<open>\<^verbatim>\<open>d.get(key, default)\<close>: never raises, unlike \<^verbatim>\<open>d[key]\<close>.\<close>
  "py_get d key dflt = (case py_lookup d key of None \<Rightarrow> dflt | Some v \<Rightarrow> v)"

definition py_dict :: "(string \<times> pyval) list \<Rightarrow> pydict" where
  \<comment> \<open>A dictionary display \<^verbatim>\<open>{k1: v1, k2: v2, ...}\<close>: the entries are stored left to right.\<close>
  "py_dict items = fold (\<lambda>item d. py_setitem d (fst item) (snd item)) items py_empty"

subsection \<open>Conversion to text inside an f-string\<close>

definition digit_char :: "nat \<Rightarrow> char" where
  "digit_char n = ''0123456789'' ! n"

fun str_nat :: "nat \<Rightarrow> string" where
  "str_nat n = (if n < 10 then [digit_char n] else str_nat (n div 10) @ [digit_char (n mod 10)])"

declare str_nat.simps [simp del]

definition str_int :: "int \<Rightarrow> string" where
  "str_int i = (if i < 0 then CHR ''-'' # str_nat (nat (- i)) else str_nat (nat i))"

fun py_format :: "pyval \<Rightarrow> string" where
  \<comment> \<open>What a replacement field \<^verbatim>\<open>{x}\<close> with no format specification writes: \<^verbatim>\<open>str(x)\<close>.\<close>
  "py_format PyNone = ''None''"
| "py_format (PyStr s) = s"
| "py_format (PyBool b) = (if b then ''True'' else ''False'')"
| "py_format (PyInt i) = str_int i"

section \<open>Metadata construction\<close>

text \<open>
  \<^verbatim>\<open>_build_docker_image_event_metadata\<close> (lines 169-183):
  \<^verbatim>\<open>
    result = {}
    for key, value in options.items():
        if key not in ["image_version", "docker_registry_url"]:
            result[key] = value
    return result
  \<close>
  The loop body is \<open>metadata_step\<close>; the loop is a fold over the items, threading
  \<^verbatim>\<open>result\<close>.
\<close>

definition excluded_keys :: "string list" where
  "excluded_keys = [''image_version'', ''docker_registry_url'']"

definition metadata_step :: "string \<times> pyval \<Rightarrow> pydict \<Rightarrow> pydict" where
  "metadata_step item result =
     (if fst item \<notin> set excluded_keys then py_setitem result (fst item) (snd item) else result)"

definition build_docker_image_event_metadata :: "pydict \<Rightarrow> pydict" where
  "build_docker_image_event_metadata options = fold metadata_step (py_items options) py_empty"

text \<open>
  The specification's \<^verbatim>\<open>sanitize(options, exclude)\<close>, in its own words: a copy of the
  options with the keys of the exclusion set removed.
\<close>

definition sanitize :: "pydict \<Rightarrow> string set \<Rightarrow> pydict" where
  "sanitize options exclude = DAList.filter (\<lambda>item. fst item \<notin> exclude) options"

section \<open>Event translation\<close>

text \<open>
  Modelled from the spec: the event classes \<^verbatim>\<open>DockerImageRequested\<close> and
  \<^verbatim>\<open>DockerImagePushRequested\<close> are imported from the shared events package and are not
  part of this repository. By the specification's data model an event is an immutable
  value carrying the image name and version, for a push request the image URL and the
  registry URL, and the metadata: the record of the arguments the constructor is given.
  The metadata field is a parameter of the type: a dictionary when the event is read as
  a value, a reference when it lives in the store of the last section.
\<close>

record 'm DockerImageRequested =
  image_name :: string
  image_version :: pyval
  metadata :: 'm

record 'm DockerImagePushRequested = "'m DockerImageRequested" +
  image_url :: string
  docker_registry_url :: pyval

text \<open>
  Lines 126-136 of \<^verbatim>\<open>accept_docker_image_requested\<close>, after \<^verbatim>\<open>metadata\<close> is built (the
  locals that share a name with a field of the event are written \<open>version\<close>, \<open>name\<close>,
  \<open>url\<close>, \<open>registry_url\<close> and \<open>md\<close>; \<^verbatim>\<open>azure_base_version\<close> is read and not used):
  \<^verbatim>\<open>
    image_version = options.get("image_version", None)
    variant = options.get("variant", None)
    python_version = options.get("python_version", None)
    azure_base_version = options.get("azure_base_version", None)
    image_name = f"licdata-{variant}-python{python_version}"
    ... DockerImageRequested(image_name, image_version, metadata)
  \<close>
\<close>

definition docker_image_requested :: "pydict \<Rightarrow> 'm \<Rightarrow> 'm DockerImageRequested" where
  "docker_image_requested options md =
     (let version = py_get options ''image_version'' PyNone;
          variant = py_get options ''variant'' PyNone;
          python_version = py_get options ''python_version'' PyNone;
          azure_base_version = py_get options ''azure_base_version'' PyNone;
          name = ''licdata-'' @ py_format variant @ ''-python'' @ py_format python_version
      in \<lparr>image_name = name, image_version = version, metadata = md\<rparr>)"

text \<open>
  Lines 149-163 of \<^verbatim>\<open>accept_docker_image_push_requested\<close>:
  \<^verbatim>\<open>
    image_version = options.get("image_version", None)
    docker_registry_url = options.get("docker_registry_url", None)
    variant = options.get("variant", None)
    python_version = options.get("python_version", None)
    azure_base_version = options.get("azure_base_version", None)
    image_name = f"licdata-{variant}-python{python_version}"
    image_url = f"{docker_registry_url}/{image_name}:{image_version}"
    ... DockerImagePushRequested(
            image_name, image_version, image_url, docker_registry_url, metadata)
  \<close>
\<close>

definition docker_image_push_requested :: "pydict \<Rightarrow> 'm \<Rightarrow> 'm DockerImagePushRequested" where
  "docker_image_push_requested options md =
     (let version = py_get options ''image_version'' PyNone;
          registry_url = py_get options ''docker_registry_url'' PyNone;
          variant = py_get options ''variant'' PyNone;
          python_version = py_get options ''python_version'' PyNone;
          azure_base_version = py_get options ''azure_base_version'' PyNone;
          name = ''licdata-'' @ py_format variant @ ''-python'' @ py_format python_version;
          url = py_format registry_url @ ''/'' @ name @ '':'' @ py_format version
      in \<lparr>image_name = name, image_version = version, metadata = md,
          image_url = url, docker_registry_url = registry_url\<rparr>)"

text \<open>The event each acceptor hands to the domain: line 125 (or 148), then the above.\<close>

definition translate_image_requested :: "pydict \<Rightarrow> pydict DockerImageRequested" where
  "translate_image_requested options =
     docker_image_requested options (build_docker_image_event_metadata options)"

definition translate_image_push_requested :: "pydict \<Rightarrow> pydict DockerImagePushRequested" where
  "translate_image_push_requested options =
     docker_image_push_requested options (build_docker_image_event_metadata options)"

section \<open>The application: enabled ports, acceptors, emission\<close>

text \<open>
  The two \<^verbatim>\<open>@enable\<close> decorators with an \<^verbatim>\<open>events\<close> list (lines 52-85): each entry names
  an event class and a bus type.
\<close>

datatype bus_type = SESSION | SYSTEM

datatype event_class =
    DbusDockerImageRequested
  | DbusDockerImagePushRequested
  | DbusCredentialProvided
  | DbusCredentialRequested
  | DbusDockerImageAvailable
  | DbusDockerImagePushed

definition listener_events :: "(event_class \<times> bus_type) list" where
  "listener_events =
     [(DbusDockerImageRequested, SYSTEM),
      (DbusDockerImagePushRequested, SYSTEM),
      (DbusCredentialProvided, SYSTEM)]"

definition emitter_events :: "(event_class \<times> bus_type) list" where
  "emitter_events =
     [(DbusCredentialRequested, SYSTEM),
      (DbusDockerImageAvailable, SYSTEM),
      (DbusDockerImagePushed, SYSTEM)]"

text \<open>
  The application object: what the decorators registered, and the calls of \<^verbatim>\<open>self.emit\<close>
  made so far, oldest first.
\<close>

record 'e app =
  inbound :: "(event_class \<times> bus_type) list"
  outbound :: "(event_class \<times> bus_type) list"
  emitted :: "'e list"

definition LicdataArtifactApp :: "'e app" where
  "LicdataArtifactApp = \<lparr>inbound = listener_events, outbound = emitter_events, emitted = []\<rparr>"

text \<open>
  How a call ends: it returns (\<open>None\<close>) or raises (\<open>Some\<close> the exception). An exception
  does not undo what was done before it, so a call yields its ending together with the
  application as it leaves it.
\<close>

datatype py_exception = PyException string

text \<open>
  The transport under \<^verbatim>\<open>emit\<close>: given the calls made so far and the event of this call,
  it takes the event (\<open>None\<close>) or fails with an exception.
\<close>

type_synonym 'e transport = "'e list \<Rightarrow> 'e \<Rightarrow> py_exception option"

definition emit :: "'e transport \<Rightarrow> 'e \<Rightarrow> 'e app \<Rightarrow> py_exception option \<times> 'e app" where
  \<comment> \<open>Modelled from the spec: \<^verbatim>\<open>emit\<close> is inherited from the framework class \<^verbatim>\<open>PythonEDA\<close>,
      which is not part of this repository. A call hands the event to the transport and
      returns nothing the acceptor reads; a publish failure, the specification's error
      class (c), is an exception of the call. The call is recorded either way.\<close>
  "emit transport event self =
     (transport (emitted self) event, self\<lparr>emitted := emitted self @ [event]\<rparr>)"

fun emit_all :: "'e transport \<Rightarrow> 'e list \<Rightarrow> 'e app \<Rightarrow> py_exception option \<times> 'e app" where
  \<comment> \<open>\<^verbatim>\<open>for event in events: await self.emit(event)\<close>, with no \<^verbatim>\<open>try\<close> around the call: the
      first exception ends the loop and leaves the acceptor.\<close>
  "emit_all transport [] self = (None, self)"
| "emit_all transport (event # events) self =
     (case emit transport event self of
        (Some exn, self') \<Rightarrow> (Some exn, self')
      | (None, self') \<Rightarrow> emit_all transport events self')"

text \<open>
  The domain handlers \<^verbatim>\<open>LicdataArtifact.listen_...\<close> are parameters: given the event, a
  handler raises (\<open>Inl\<close>) or returns a sequence of events (\<open>Inr\<close>). An exception of the
  handler leaves the acceptor before the loop; an exception of \<^verbatim>\<open>emit\<close> leaves it from
  inside the loop.
\<close>

definition accept_docker_image_requested ::
  "(pydict DockerImageRequested \<Rightarrow> py_exception + 'e list) \<Rightarrow> 'e transport \<Rightarrow> pydict
     \<Rightarrow> 'e app \<Rightarrow> py_exception option \<times> 'e app" where
  "accept_docker_image_requested listen_DockerImageRequested transport options self =
     (case listen_DockerImageRequested (translate_image_requested options) of
        Inl exn \<Rightarrow> (Some exn, self)
      | Inr events \<Rightarrow> emit_all transport events self)"

definition accept_docker_image_push_requested ::
  "(pydict DockerImagePushRequested \<Rightarrow> py_exception + 'e list) \<Rightarrow> 'e transport \<Rightarrow> pydict
     \<Rightarrow> 'e app \<Rightarrow> py_exception option \<times> 'e app" where
  "accept_docker_image_push_requested listen_DockerImagePushRequested transport options self =
     (case listen_DockerImagePushRequested (translate_image_push_requested options) of
        Inl exn \<Rightarrow> (Some exn, self)
      | Inr events \<Rightarrow> emit_all transport events self)"

text \<open>
  The states the application reaches from its start by accepting requests, whether an
  acceptor returned or raised.
\<close>

inductive reachable :: "'e app \<Rightarrow> bool" where
  start: "reachable LicdataArtifactApp"
| requested:
    "reachable self \<Longrightarrow>
     accept_docker_image_requested handler transport options self = (ending, self')
       \<Longrightarrow> reachable self'"
| push_requested:
    "reachable self \<Longrightarrow>
     accept_docker_image_push_requested handler transport options self = (ending, self')
       \<Longrightarrow> reachable self'"

section \<open>Dictionaries as objects in a store\<close>

text \<open>
  \<^verbatim>\<open>options\<close> and \<^verbatim>\<open>result\<close> are references to dictionary objects. The store lists the
  objects allocated so far; a reference is an index into it, and \<^verbatim>\<open>{}\<close> allocates at the
  end. With the store explicit, \<^verbatim>\<open>result[key] = value\<close> is an update of the cell
  \<^verbatim>\<open>result\<close> points to, and the items are those of the cell \<^verbatim>\<open>options\<close> points to.
\<close>

type_synonym ref = nat
type_synonym store = "pydict list"

definition build_docker_image_event_metadata_in :: "store \<Rightarrow> ref \<Rightarrow> store \<times> ref" where
  "build_docker_image_event_metadata_in st options =
     (let result = length st;
          st0 = st @ [py_empty]
      in (fold (\<lambda>item s. s[result := metadata_step item (s ! result)])
               (py_items (st0 ! options)) st0,
          result))"

definition translate_image_requested_in ::
  "store \<Rightarrow> ref \<Rightarrow> store \<times> ref DockerImageRequested" where
  "translate_image_requested_in st options =
     (let (st', md) = build_docker_image_event_metadata_in st options
      in (st', docker_image_requested (st' ! options) md))"

definition translate_image_push_requested_in ::
  "store \<Rightarrow> ref \<Rightarrow> store \<times> ref DockerImagePushRequested" where
  "translate_image_push_requested_in st options =
     (let (st', md) = build_docker_image_event_metadata_in st options
      in (st', docker_image_push_requested (st' ! options) md))"

text \<open>An event of the store read as a value: the metadata reference followed.\<close>

definition requested_value ::
  "store \<Rightarrow> ref DockerImageRequested \<Rightarrow> pydict DockerImageRequested" where
  "requested_value st ev =
     \<lparr>image_name = image_name ev, image_version = image_version ev,
      metadata = st ! metadata ev\<rparr>"

definition push_requested_value ::
  "store \<Rightarrow> ref DockerImagePushRequested \<Rightarrow> pydict DockerImagePushRequested" where
  "push_requested_value st ev =
     \<lparr>image_name = image_name ev, image_version = image_version ev,
      metadata = st ! metadata ev,
      image_url = image_url ev, docker_registry_url = docker_registry_url ev\<rparr>"

section \<open>Sample requests\<close>

text \<open>The option sets of the specification's examples, and a few more used as instances.\<close>

definition slim_options :: pydict where
  "slim_options =
     py_dict [(''variant'', PyStr ''slim''), (''python_version'', PyStr ''3.12''),
              (''image_version'', PyStr ''1.0'')]"

definition slim_push_options :: pydict where
  "slim_push_options =
     py_dict [(''variant'', PyStr ''slim''), (''python_version'', PyStr ''3.12''),
              (''image_version'', PyStr ''1.0''),
              (''docker_registry_url'', PyStr ''registry.example.com'')]"

definition python_only_options :: pydict where
  \<comment> \<open>A request that names the Python version and nothing else.\<close>
  "python_only_options = py_dict [(''python_version'', PyStr ''3.12'')]"

definition azure_only_options :: pydict where
  \<comment> \<open>A request with none of the four options the derived fields are made of.\<close>
  "azure_only_options = py_dict [(''azure_base_version'', PyStr ''4'')]"

definition reordered_push_options :: pydict where
  \<comment> \<open>The sample push request given in another order, with one more option.\<close>
  "reordered_push_options =
     py_dict [(''azure_base_version'', PyStr ''4''),
              (''docker_registry_url'', PyStr ''registry.example.com''),
              (''image_version'', PyStr ''1.0''),
              (''python_version'', PyStr ''3.12''), (''variant'', PyStr ''slim'')]"

text \<open>Two transports and a handler: the results are plain strings.\<close>

definition taking_all :: "string transport" where
  \<comment> \<open>A transport that takes every event.\<close>
  "taking_all log event = None"



text \<open>
  The first-class fields of the two events: what the constructor is given besides the
  metadata.
\<close>

definition requested_identity :: "'m DockerImageRequested \<Rightarrow> string \<times> pyval" where
  "requested_identity ev = (image_name ev, image_version ev)"

definition push_requested_identity ::
  "'m DockerImagePushRequested \<Rightarrow> string \<times> pyval \<times> string \<times> pyval" where
  "push_requested_identity ev =
     (image_name ev, image_version ev, image_url ev, docker_registry_url ev)"

section \<open>Facts about the dictionary primitives\<close>

lemma py_items_empty: "py_items py_empty = []"
  by (simp add: py_items_def py_empty_def empty.rep_eq)

lemma py_items_setitem: "py_items (py_setitem d key val) = AList.update key val (py_items d)"
  by (simp add: py_items_def py_setitem_def update.rep_eq)

lemma py_items_distinct: "distinct (map fst (py_items d))"
  by (simp add: py_items_def)

lemma py_items_inject: "py_items d = py_items d' \<Longrightarrow> d = d'"
  by (simp add: py_items_def alist_ext)

lemma py_lookup_items: "py_lookup d key = map_of (py_items d) key"
  by (simp add: py_lookup_def py_items_def lookup.rep_eq)

lemma py_lookup_empty: "py_lookup py_empty key = None"
  by (simp add: py_lookup_items py_items_empty)

lemma py_lookup_setitem:
  "py_lookup (py_setitem d k v) key = (if key = k then Some v else py_lookup d key)"
  by (simp add: py_lookup_items py_items_setitem update_conv')

lemma py_lookup_None_iff: "py_lookup d key = None \<longleftrightarrow> key \<notin> py_keys d"
  by (simp add: py_lookup_items py_keys_def map_of_eq_None_iff)

lemma py_keys_empty: "py_keys py_empty = {}"
  by (simp add: py_keys_def py_items_empty)

lemma py_keys_setitem: "py_keys (py_setitem d k v) = insert k (py_keys d)"
  by (simp add: py_keys_def py_items_setitem dom_update)

lemma update_absent_key: "k \<notin> fst ` set al \<Longrightarrow> AList.update k v al = al @ [(k, v)]"
  by (induction al) auto

lemma map_of_filter_keys:
  "map_of (filter (\<lambda>item. fst item \<notin> A) xs) k = (if k \<in> A then None else map_of xs k)"
  by (induction xs) auto

lemma py_format_examples:
  "py_format (PyInt 312) = ''312''"
  "py_format (PyInt (- 45)) = ''-45''"
  "py_format (PyInt 0) = ''0''"
  "py_format (PyBool False) = ''False''"
  "py_format PyNone = ''None''"
  by (simp_all add: str_int_def str_nat.simps digit_char_def)

section \<open>The metadata loop\<close>

lemma metadata_step_items:
  assumes "fst item \<notin> py_keys result"
  shows "py_items (metadata_step item result) =
         py_items result @ filter (\<lambda>i. fst i \<notin> set excluded_keys) [item]"
  using assms
  by (cases item) (simp add: metadata_step_def py_items_setitem py_keys_def update_absent_key)

lemma fold_metadata_step_items:
  "distinct (map fst (py_items result @ xs)) \<Longrightarrow>
   py_items (fold metadata_step xs result) =
   py_items result @ filter (\<lambda>i. fst i \<notin> set excluded_keys) xs"
proof (induction xs arbitrary: result)
  case Nil
  then show ?case by simp
next
  case (Cons x xs)
  have fresh: "fst x \<notin> py_keys result"
    using Cons.prems by (auto simp add: py_keys_def)
  let ?r = "metadata_step x result"
  have step: "py_items ?r = py_items result @ filter (\<lambda>i. fst i \<notin> set excluded_keys) [x]"
    by (rule metadata_step_items [OF fresh])
  have "distinct (map fst (py_items ?r @ xs))"
    using Cons.prems by (auto simp add: step)
  from Cons.IH [OF this] show ?case
    by (simp add: step)
qed

lemma build_items:
  "py_items (build_docker_image_event_metadata options) =
   filter (\<lambda>i. fst i \<notin> set excluded_keys) (py_items options)"
  using fold_metadata_step_items [of py_empty "py_items options"]
  by (simp add: build_docker_image_event_metadata_def py_items_empty py_items_distinct)

lemma build_is_sanitize:
  "build_docker_image_event_metadata options = sanitize options (set excluded_keys)"
  by (rule py_items_inject) (simp add: build_items, simp add: py_items_def sanitize_def filter.rep_eq)

lemma build_keys:
  "py_keys (build_docker_image_event_metadata options) = py_keys options - set excluded_keys"
  by (auto simp add: py_keys_def build_items)

lemma build_lookup:
  "py_lookup (build_docker_image_event_metadata options) key =
   (if key \<in> set excluded_keys then None else py_lookup options key)"
  by (simp add: py_lookup_items build_items map_of_filter_keys)

lemma build_empty: "build_docker_image_event_metadata py_empty = py_empty"
  by (simp add: build_docker_image_event_metadata_def py_items_empty)

lemma excluded_keys_set: "set excluded_keys = {''image_version'', ''docker_registry_url''}"
  by (simp add: excluded_keys_def)

text \<open>
  C1. For every options dictionary, the metadata built by
  \<^verbatim>\<open>_build_docker_image_event_metadata\<close> has exactly the keys of the options other than
  \<^verbatim>\<open>image_version\<close> and \<^verbatim>\<open>docker_registry_url\<close>, and binds each of them to the value the
  options bind it to; it is the specification's \<^verbatim>\<open>sanitize\<close> of the options with that
  exclusion set, so its keys are disjoint from the exclusion set and among the keys of
  the options; and empty options give empty metadata.
\<close>

theorem metadata_keys_and_bindings:
  "py_keys (build_docker_image_event_metadata options) =
     py_keys options - {''image_version'', ''docker_registry_url''}
   \<and> py_lookup (build_docker_image_event_metadata options) key =
     (if key \<in> {''image_version'', ''docker_registry_url''} then None
      else py_lookup options key)
   \<and> build_docker_image_event_metadata options =
     sanitize options {''image_version'', ''docker_registry_url''}
   \<and> py_keys (build_docker_image_event_metadata options)
       \<inter> {''image_version'', ''docker_registry_url''} = {}
   \<and> py_keys (build_docker_image_event_metadata options) \<subseteq> py_keys options
   \<and> build_docker_image_event_metadata py_empty = py_empty"
proof -
  note ks = excluded_keys_set
  have "py_keys (build_docker_image_event_metadata options) =
      py_keys options - {''image_version'', ''docker_registry_url''}"
    using build_keys [of options] by (simp only: ks)
  moreover have "py_lookup (build_docker_image_event_metadata options) key =
      (if key \<in> {''image_version'', ''docker_registry_url''} then None
       else py_lookup options key)"
    using build_lookup [of options key] by (simp only: ks)
  moreover have "build_docker_image_event_metadata options =
      sanitize options {''image_version'', ''docker_registry_url''}"
    using build_is_sanitize [of options] by (simp only: ks)
  moreover have "py_keys (build_docker_image_event_metadata options)
      \<inter> {''image_version'', ''docker_registry_url''} = {}"
    using build_keys [of options] by (auto simp only: ks)
  moreover have "py_keys (build_docker_image_event_metadata options) \<subseteq> py_keys options"
    using build_keys [of options] by auto
  ultimately show ?thesis
    using build_empty by (intro conjI)
qed

section \<open>The translated events\<close>

lemmas dict_eval =
  py_dict_def py_lookup_setitem py_lookup_empty py_keys_setitem py_keys_empty
  py_items_setitem py_items_empty

lemma py_get_lookup:
  "py_get d key dflt = (case py_lookup d key of None \<Rightarrow> dflt | Some v \<Rightarrow> v)"
  by (simp add: py_get_def)

lemma py_get_present: "py_lookup d key = Some v \<Longrightarrow> py_get d key dflt = v"
  by (simp add: py_get_def)

lemma py_get_absent: "key \<notin> py_keys d \<Longrightarrow> py_get d key dflt = dflt"
  by (simp add: py_get_def py_lookup_None_iff [symmetric])

lemma requested_fields:
  "image_name (docker_image_requested options md) =
     ''licdata-'' @ py_format (py_get options ''variant'' PyNone) @ ''-python''
       @ py_format (py_get options ''python_version'' PyNone)"
  "image_version (docker_image_requested options md) = py_get options ''image_version'' PyNone"
  "metadata (docker_image_requested options md) = md"
  by (simp_all add: docker_image_requested_def Let_def)

lemma push_requested_fields:
  "image_name (docker_image_push_requested options md) =
     ''licdata-'' @ py_format (py_get options ''variant'' PyNone) @ ''-python''
       @ py_format (py_get options ''python_version'' PyNone)"
  "image_version (docker_image_push_requested options md) =
     py_get options ''image_version'' PyNone"
  "metadata (docker_image_push_requested options md) = md"
  "docker_registry_url (docker_image_push_requested options md) =
     py_get options ''docker_registry_url'' PyNone"
  "image_url (docker_image_push_requested options md) =
     py_format (py_get options ''docker_registry_url'' PyNone) @ ''/''
       @ image_name (docker_image_push_requested options md) @ '':''
       @ py_format (py_get options ''image_version'' PyNone)"
  by (simp_all add: docker_image_push_requested_def Let_def)

lemma slim_options_lookup:
  "py_lookup slim_options ''variant'' = Some (PyStr ''slim'')"
  "py_lookup slim_options ''python_version'' = Some (PyStr ''3.12'')"
  "py_lookup slim_options ''image_version'' = Some (PyStr ''1.0'')"
  by (simp_all add: slim_options_def dict_eval)

lemma slim_options_metadata:
  "build_docker_image_event_metadata slim_options =
     py_dict [(''variant'', PyStr ''slim''), (''python_version'', PyStr ''3.12'')]"
  by (rule py_items_inject) (simp add: build_items slim_options_def dict_eval excluded_keys_def)

lemma slim_push_options_lookup:
  "py_lookup slim_push_options ''variant'' = Some (PyStr ''slim'')"
  "py_lookup slim_push_options ''python_version'' = Some (PyStr ''3.12'')"
  "py_lookup slim_push_options ''image_version'' = Some (PyStr ''1.0'')"
  "py_lookup slim_push_options ''docker_registry_url'' = Some (PyStr ''registry.example.com'')"
  by (simp_all add: slim_push_options_def dict_eval)

lemma slim_push_options_metadata:
  "build_docker_image_event_metadata slim_push_options =
     py_dict [(''variant'', PyStr ''slim''), (''python_version'', PyStr ''3.12'')]"
  by (rule py_items_inject)
     (simp add: build_items slim_push_options_def dict_eval excluded_keys_def)

text \<open>
  C2. For every options dictionary, the event \<^verbatim>\<open>accept_docker_image_requested\<close> builds
  has as image version the value bound to \<^verbatim>\<open>image_version\<close> (\<^verbatim>\<open>None\<close> when absent), as
  image name \<^verbatim>\<open>licdata-\<close>, the variant, \<^verbatim>\<open>-python\<close> and the Python version, each written
  as an f-string writes it (for strings: the concatenation itself), and as metadata the
  options sanitized of \<^verbatim>\<open>image_version\<close> and \<^verbatim>\<open>docker_registry_url\<close>. For the options
  slim / 3.12 / 1.0 the name is \<^verbatim>\<open>licdata-slim-python3.12\<close>, the version \<^verbatim>\<open>1.0\<close>, and the
  metadata have no \<^verbatim>\<open>image_version\<close>.
\<close>

theorem translate_image_requested_event:
  "image_version (translate_image_requested options) =
     (case py_lookup options ''image_version'' of None \<Rightarrow> PyNone | Some v \<Rightarrow> v)
   \<and> image_name (translate_image_requested options) =
     ''licdata-'' @ py_format (py_get options ''variant'' PyNone) @ ''-python''
       @ py_format (py_get options ''python_version'' PyNone)
   \<and> (py_lookup options ''variant'' = Some (PyStr variant) \<and>
      py_lookup options ''python_version'' = Some (PyStr python_version) \<longrightarrow>
      image_name (translate_image_requested options) =
        ''licdata-'' @ variant @ ''-python'' @ python_version)
   \<and> metadata (translate_image_requested options) =
     sanitize options {''image_version'', ''docker_registry_url''}
   \<and> image_name (translate_image_requested slim_options) = ''licdata-slim-python3.12''
   \<and> image_version (translate_image_requested slim_options) = PyStr ''1.0''
   \<and> ''image_version'' \<notin> py_keys (metadata (translate_image_requested slim_options))"
proof -
  let ?ev = "translate_image_requested options"
  have version: "image_version ?ev =
      (case py_lookup options ''image_version'' of None \<Rightarrow> PyNone | Some v \<Rightarrow> v)"
    by (simp add: translate_image_requested_def requested_fields py_get_lookup)
  have name: "image_name ?ev =
      ''licdata-'' @ py_format (py_get options ''variant'' PyNone) @ ''-python''
        @ py_format (py_get options ''python_version'' PyNone)"
    by (simp add: translate_image_requested_def requested_fields)
  have strings: "py_lookup options ''variant'' = Some (PyStr variant) \<and>
      py_lookup options ''python_version'' = Some (PyStr python_version) \<longrightarrow>
      image_name ?ev = ''licdata-'' @ variant @ ''-python'' @ python_version"
    by (simp add: name py_get_lookup)
  have md: "metadata ?ev = sanitize options {''image_version'', ''docker_registry_url''}"
    by (simp add: translate_image_requested_def requested_fields build_is_sanitize
        excluded_keys_set)
  have slim_name: "image_name (translate_image_requested slim_options) = ''licdata-slim-python3.12''"
    by (simp add: translate_image_requested_def requested_fields py_get_lookup
        slim_options_lookup)
  have slim_version: "image_version (translate_image_requested slim_options) = PyStr ''1.0''"
    by (simp add: translate_image_requested_def requested_fields py_get_lookup
        slim_options_lookup)
  have slim_md: "''image_version'' \<notin> py_keys (metadata (translate_image_requested slim_options))"
    by (simp add: translate_image_requested_def requested_fields build_keys excluded_keys_def)
  from version name strings md slim_name slim_version slim_md show ?thesis
    by (intro conjI)
qed

text \<open>The theorem at the sample request, whose variant and Python version are strings.\<close>

theorem translate_image_requested_event_witness:
  "py_lookup slim_options ''variant'' = Some (PyStr ''slim'')
   \<and> py_lookup slim_options ''python_version'' = Some (PyStr ''3.12'')
   \<and> image_name (translate_image_requested slim_options) = ''licdata-slim-python3.12''
   \<and> image_version (translate_image_requested slim_options) = PyStr ''1.0''
   \<and> metadata (translate_image_requested slim_options) =
       py_dict [(''variant'', PyStr ''slim''), (''python_version'', PyStr ''3.12'')]"
  using translate_image_requested_event [of slim_options "''slim''" "''3.12''"]
  by (simp add: slim_options_lookup translate_image_requested_def requested_fields
      slim_options_metadata)

text \<open>
  C3. For every options dictionary, the event \<^verbatim>\<open>accept_docker_image_push_requested\<close>
  builds has the image name and version of the build request's event, the same metadata,
  and as image URL the registry URL, \<^verbatim>\<open>/\<close>, the image name, \<^verbatim>\<open>:\<close> and the image version.
  For the sample push request the URL is
  \<^verbatim>\<open>registry.example.com/licdata-slim-python3.12:1.0\<close> and the metadata have neither
  \<^verbatim>\<open>image_version\<close> nor \<^verbatim>\<open>docker_registry_url\<close>.
\<close>

theorem translate_image_push_requested_event:
  "image_name (translate_image_push_requested options) =
     image_name (translate_image_requested options)
   \<and> image_version (translate_image_push_requested options) =
     image_version (translate_image_requested options)
   \<and> metadata (translate_image_push_requested options) =
     sanitize options {''image_version'', ''docker_registry_url''}
   \<and> image_url (translate_image_push_requested options) =
     py_format (py_get options ''docker_registry_url'' PyNone) @ ''/''
       @ image_name (translate_image_push_requested options) @ '':''
       @ py_format (py_get options ''image_version'' PyNone)
   \<and> (py_lookup options ''docker_registry_url'' = Some (PyStr registry) \<and>
      py_lookup options ''image_version'' = Some (PyStr version) \<longrightarrow>
      image_url (translate_image_push_requested options) =
        registry @ ''/'' @ image_name (translate_image_push_requested options) @ '':''
          @ version)
   \<and> image_url (translate_image_push_requested slim_push_options) =
     ''registry.example.com/licdata-slim-python3.12:1.0''
   \<and> ''image_version'' \<notin> py_keys (metadata (translate_image_push_requested slim_push_options))
   \<and> ''docker_registry_url'' \<notin>
       py_keys (metadata (translate_image_push_requested slim_push_options))"
proof -
  let ?ev = "translate_image_push_requested options"
  have name: "image_name ?ev = image_name (translate_image_requested options)"
    by (simp add: translate_image_push_requested_def translate_image_requested_def
        push_requested_fields requested_fields)
  have version: "image_version ?ev = image_version (translate_image_requested options)"
    by (simp add: translate_image_push_requested_def translate_image_requested_def
        push_requested_fields requested_fields)
  have md: "metadata ?ev = sanitize options {''image_version'', ''docker_registry_url''}"
    by (simp add: translate_image_push_requested_def push_requested_fields build_is_sanitize
        excluded_keys_set)
  have url: "image_url ?ev =
      py_format (py_get options ''docker_registry_url'' PyNone) @ ''/''
        @ image_name ?ev @ '':'' @ py_format (py_get options ''image_version'' PyNone)"
    unfolding translate_image_push_requested_def by (rule push_requested_fields(5))
  have strings: "py_lookup options ''docker_registry_url'' = Some (PyStr registry) \<and>
      py_lookup options ''image_version'' = Some (PyStr version) \<longrightarrow>
      image_url ?ev = registry @ ''/'' @ image_name ?ev @ '':'' @ version"
    by (simp add: url py_get_lookup)
  have slim_url: "image_url (translate_image_push_requested slim_push_options) =
      ''registry.example.com/licdata-slim-python3.12:1.0''"
    by (simp add: translate_image_push_requested_def push_requested_fields py_get_lookup
        slim_push_options_lookup)
  have slim_md:
    "''image_version'' \<notin> py_keys (metadata (translate_image_push_requested slim_push_options))"
    "''docker_registry_url'' \<notin>
       py_keys (metadata (translate_image_push_requested slim_push_options))"
    by (simp_all add: translate_image_push_requested_def push_requested_fields build_keys
        excluded_keys_def)
  from name version md url strings slim_url slim_md show ?thesis
    by (intro conjI)
qed

text \<open>The theorem at the sample push request, whose registry and version are strings.\<close>

theorem translate_image_push_requested_event_witness:
  "py_lookup slim_push_options ''docker_registry_url'' = Some (PyStr ''registry.example.com'')
   \<and> py_lookup slim_push_options ''image_version'' = Some (PyStr ''1.0'')
   \<and> image_name (translate_image_push_requested slim_push_options) = ''licdata-slim-python3.12''
   \<and> image_url (translate_image_push_requested slim_push_options) =
       ''registry.example.com/licdata-slim-python3.12:1.0''
   \<and> metadata (translate_image_push_requested slim_push_options) =
       py_dict [(''variant'', PyStr ''slim''), (''python_version'', PyStr ''3.12'')]"
proof -
  have present:
    "py_lookup slim_push_options ''docker_registry_url'' = Some (PyStr ''registry.example.com'')
     \<and> py_lookup slim_push_options ''image_version'' = Some (PyStr ''1.0'')"
    by (simp add: slim_push_options_lookup)
  have name: "image_name (translate_image_push_requested slim_push_options) =
      ''licdata-slim-python3.12''"
    by (simp add: translate_image_push_requested_def push_requested_fields py_get_lookup
        slim_push_options_lookup)
  have md: "metadata (translate_image_push_requested slim_push_options) =
      py_dict [(''variant'', PyStr ''slim''), (''python_version'', PyStr ''3.12'')]"
    by (simp add: translate_image_push_requested_def push_requested_fields
        slim_push_options_metadata)
  from translate_image_push_requested_event
    [where options = slim_push_options and registry = "''registry.example.com''"
       and version = "''1.0''"] present
  have "image_url (translate_image_push_requested slim_push_options) =
      ''registry.example.com'' @ ''/''
        @ image_name (translate_image_push_requested slim_push_options) @ '':'' @ ''1.0''"
    by blast
  then have url: "image_url (translate_image_push_requested slim_push_options) =
      ''registry.example.com/licdata-slim-python3.12:1.0''"
    by (simp add: name)
  from present name url md show ?thesis
    by (intro conjI) simp_all
qed

section \<open>Emission\<close>

lemma emit_all_taken:
  "\<forall>log. \<forall>e\<in>set events. transport log e = None \<Longrightarrow>
   emit_all transport events self = (None, self\<lparr>emitted := emitted self @ events\<rparr>)"
proof (induction events arbitrary: self)
  case Nil
  show ?case by simp
next
  case (Cons event events)
  have head: "transport (emitted self) event = None"
    using Cons.prems by simp
  have rest: "\<forall>log. \<forall>e\<in>set events. transport log e = None"
    using Cons.prems by simp
  show ?case
    by (simp add: emit_def head Cons.IH [OF rest])
qed


lemma emit_all_exception_of_transport:
  "fst (emit_all transport events self) = Some exn \<Longrightarrow>
   \<exists>log. \<exists>e\<in>set events. transport log e = Some exn"
proof (induction events arbitrary: self)
  case Nil
  then show ?case by simp
next
  case (Cons event events)
  show ?case
  proof (cases "transport (emitted self) event")
    case None
    with Cons.prems
    have "fst (emit_all transport events (self\<lparr>emitted := emitted self @ [event]\<rparr>)) = Some exn"
      by (simp add: emit_def)
    from Cons.IH [OF this] show ?thesis by auto
  next
    case (Some raised)
    with Cons.prems have "raised = exn"
      by (simp add: emit_def)
    with Some show ?thesis by auto
  qed
qed

lemma emit_all_tables:
  "inbound (snd (emit_all transport events self)) = inbound self \<and>
   outbound (snd (emit_all transport events self)) = outbound self"
proof (induction events arbitrary: self)
  case Nil
  show ?case by simp
next
  case (Cons event events)
  show ?case
    by (cases "transport (emitted self) event") (simp_all add: emit_def Cons.IH)
qed

lemma slim_image_name:
  "image_name (translate_image_requested slim_options) = ''licdata-slim-python3.12''"
  by (simp add: translate_image_requested_def requested_fields py_get_lookup
      slim_options_lookup)





section \<open>The routing table\<close>

lemma accept_requested_tables:
  assumes "accept_docker_image_requested handler transport options self = (ending, self')"
  shows "inbound self' = inbound self \<and> outbound self' = outbound self"
proof (cases "handler (translate_image_requested options)")
  case (Inl exn)
  with assms show ?thesis
    by (simp add: accept_docker_image_requested_def)
next
  case (Inr events)
  with assms have "self' = snd (emit_all transport events self)"
    by (simp add: accept_docker_image_requested_def)
  then show ?thesis
    by (simp add: emit_all_tables)
qed

lemma accept_push_requested_tables:
  assumes "accept_docker_image_push_requested handler transport options self = (ending, self')"
  shows "inbound self' = inbound self \<and> outbound self' = outbound self"
proof (cases "handler (translate_image_push_requested options)")
  case (Inl exn)
  with assms show ?thesis
    by (simp add: accept_docker_image_push_requested_def)
next
  case (Inr events)
  with assms have "self' = snd (emit_all transport events self)"
    by (simp add: accept_docker_image_push_requested_def)
  then show ?thesis
    by (simp add: emit_all_tables)
qed

text \<open>
  C5. In every state the application reaches from its start by accepting build and push
  requests, whatever the options and the handlers, the registrations are those declared
  on the class: exactly three inbound event classes (Docker image requested, Docker
  image push requested, credential provided) and exactly three outbound ones (credential
  requested, Docker image available, Docker image pushed), each on the system bus. No
  acceptor adds, removes or rescopes an entry.
\<close>

theorem routing_table_fixed:
  assumes "reachable self"
  shows "inbound self =
           [(DbusDockerImageRequested, SYSTEM), (DbusDockerImagePushRequested, SYSTEM),
            (DbusCredentialProvided, SYSTEM)]
         \<and> outbound self =
           [(DbusCredentialRequested, SYSTEM), (DbusDockerImageAvailable, SYSTEM),
            (DbusDockerImagePushed, SYSTEM)]"
  using assms
proof (induction rule: reachable.induct)
  case start
  show ?case
    by (simp add: LicdataArtifactApp_def listener_events_def emitter_events_def)
next
  case (requested self handler transport options ending self')
  from accept_requested_tables [OF requested.hyps(2)] requested.IH show ?case
    by simp
next
  case (push_requested self handler transport options ending self')
  from accept_push_requested_tables [OF push_requested.hyps(2)] push_requested.IH show ?case
    by simp
qed

text \<open>
  The state after one build request whose handler answers with one event.
\<close>

theorem routing_table_fixed_witness:
  "reachable (LicdataArtifactApp\<lparr>emitted := [''licdata-slim-python3.12'']\<rparr>)
   \<and> inbound (LicdataArtifactApp\<lparr>emitted := [''licdata-slim-python3.12'']\<rparr>) =
       [(DbusDockerImageRequested, SYSTEM), (DbusDockerImagePushRequested, SYSTEM),
        (DbusCredentialProvided, SYSTEM)]
   \<and> outbound (LicdataArtifactApp\<lparr>emitted := [''licdata-slim-python3.12'']\<rparr>) =
       [(DbusCredentialRequested, SYSTEM), (DbusDockerImageAvailable, SYSTEM),
        (DbusDockerImagePushed, SYSTEM)]"
proof -
  let ?self' = "LicdataArtifactApp\<lparr>emitted := [''licdata-slim-python3.12'']\<rparr> :: string app"
  have "accept_docker_image_requested (\<lambda>ev. Inr [image_name ev]) taking_all slim_options
          LicdataArtifactApp = (None, ?self')"
    by (simp add: accept_docker_image_requested_def emit_def taking_all_def slim_image_name
        LicdataArtifactApp_def)
  with reachable.start have r: "reachable ?self'"
    by (rule reachable.requested)
  from r routing_table_fixed [OF r] show ?thesis
    by simp
qed

section \<open>Missing options\<close>

lemma python_only_options_keys: "py_keys python_only_options = {''python_version''}"
  by (simp add: python_only_options_def dict_eval)

lemma azure_only_options_keys: "py_keys azure_only_options = {''azure_base_version''}"
  by (simp add: azure_only_options_def dict_eval)

lemmas translate_fields =
  translate_image_requested_def translate_image_push_requested_def
  requested_fields push_requested_fields

lemma build_nothing_excluded:
  assumes "''image_version'' \<notin> py_keys options" and "''docker_registry_url'' \<notin> py_keys options"
  shows "build_docker_image_event_metadata options = options"
proof (rule py_items_inject)
  have "\<forall>item\<in>set (py_items options). fst item \<notin> set excluded_keys"
    using assms by (force simp add: py_keys_def excluded_keys_def)
  then show "py_items (build_docker_image_event_metadata options) = py_items options"
    by (simp add: build_items)
qed

lemma translate_requested_all_absent:
  assumes "''variant'' \<notin> py_keys options" and "''python_version'' \<notin> py_keys options"
    and "''image_version'' \<notin> py_keys options" and "''docker_registry_url'' \<notin> py_keys options"
  shows "translate_image_requested options =
         \<lparr>image_name = ''licdata-None-pythonNone'', image_version = PyNone,
          metadata = options\<rparr>"
  using assms
  by (simp add: translate_image_requested_def docker_image_requested_def Let_def
      py_get_absent build_nothing_excluded)

lemma translate_push_requested_all_absent:
  assumes "''variant'' \<notin> py_keys options" and "''python_version'' \<notin> py_keys options"
    and "''image_version'' \<notin> py_keys options" and "''docker_registry_url'' \<notin> py_keys options"
  shows "translate_image_push_requested options =
         \<lparr>image_name = ''licdata-None-pythonNone'', image_version = PyNone,
          metadata = options, image_url = ''None/licdata-None-pythonNone:None'',
          docker_registry_url = PyNone\<rparr>"
  using assms
  by (simp add: translate_image_push_requested_def docker_image_push_requested_def Let_def
      py_get_absent build_nothing_excluded)

lemma accept_requested_exception:
  assumes "fst (accept_docker_image_requested listen transport options self) = Some exn"
  shows "listen (translate_image_requested options) = Inl exn
         \<or> (\<exists>events. listen (translate_image_requested options) = Inr events
               \<and> (\<exists>log. \<exists>e\<in>set events. transport log e = Some exn))"
proof (cases "listen (translate_image_requested options)")
  case (Inl raised)
  with assms show ?thesis
    by (simp add: accept_docker_image_requested_def)
next
  case (Inr events)
  with assms have "fst (emit_all transport events self) = Some exn"
    by (simp add: accept_docker_image_requested_def)
  from emit_all_exception_of_transport [OF this] Inr show ?thesis
    by simp
qed

lemma accept_push_requested_exception:
  assumes "fst (accept_docker_image_push_requested listen transport options self) = Some exn"
  shows "listen (translate_image_push_requested options) = Inl exn
         \<or> (\<exists>events. listen (translate_image_push_requested options) = Inr events
               \<and> (\<exists>log. \<exists>e\<in>set events. transport log e = Some exn))"
proof (cases "listen (translate_image_push_requested options)")
  case (Inl raised)
  with assms show ?thesis
    by (simp add: accept_docker_image_push_requested_def)
next
  case (Inr events)
  with assms have "fst (emit_all transport events self) = Some exn"
    by (simp add: accept_docker_image_push_requested_def)
  from emit_all_exception_of_transport [OF this] Inr show ?thesis
    by simp
qed

text \<open>
  C6. For every options dictionary, whichever of \<^verbatim>\<open>variant\<close>, \<^verbatim>\<open>python_version\<close>,
  \<^verbatim>\<open>image_version\<close> and \<^verbatim>\<open>docker_registry_url\<close> it lacks, building the event raises
  nothing. An exception an acceptor ends with is one the domain handler raised on the
  translated event, or one a call of \<^verbatim>\<open>emit\<close> raised on an event the handler returned.
  A missing option is \<^verbatim>\<open>None\<close> in the event's field and the text \<^verbatim>\<open>None\<close> in the derived
  image name and URL. With all four missing, the handler is given the event named
  \<^verbatim>\<open>licdata-None-pythonNone\<close>, with version \<^verbatim>\<open>None\<close>, the options themselves as metadata
  and, for a push request, the URL \<^verbatim>\<open>None/licdata-None-pythonNone:None\<close>; if the handler
  returns on that event and every call of \<^verbatim>\<open>emit\<close> returns, so does the acceptor, having
  emitted the handler's events.
\<close>

theorem missing_options_raise_nothing:
  "(fst (accept_docker_image_requested listen transport options self) = Some exn \<longrightarrow>
      listen (translate_image_requested options) = Inl exn
      \<or> (\<exists>events. listen (translate_image_requested options) = Inr events
            \<and> (\<exists>log. \<exists>e\<in>set events. transport log e = Some exn)))
   \<and> (fst (accept_docker_image_push_requested listen_push transport options self) = Some exn
      \<longrightarrow>
      listen_push (translate_image_push_requested options) = Inl exn
      \<or> (\<exists>events. listen_push (translate_image_push_requested options) = Inr events
            \<and> (\<exists>log. \<exists>e\<in>set events. transport log e = Some exn)))
   \<and> (''variant'' \<notin> py_keys options \<longrightarrow>
      image_name (translate_image_requested options) =
        ''licdata-None-python'' @ py_format (py_get options ''python_version'' PyNone))
   \<and> (''python_version'' \<notin> py_keys options \<longrightarrow>
      image_name (translate_image_requested options) =
        ''licdata-'' @ py_format (py_get options ''variant'' PyNone) @ ''-pythonNone'')
   \<and> (''image_version'' \<notin> py_keys options \<longrightarrow>
      image_version (translate_image_requested options) = PyNone
      \<and> image_version (translate_image_push_requested options) = PyNone
      \<and> image_url (translate_image_push_requested options) =
        py_format (py_get options ''docker_registry_url'' PyNone) @ ''/''
          @ image_name (translate_image_push_requested options) @ '':None'')
   \<and> (''docker_registry_url'' \<notin> py_keys options \<longrightarrow>
      docker_registry_url (translate_image_push_requested options) = PyNone
      \<and> image_url (translate_image_push_requested options) =
        ''None/'' @ image_name (translate_image_push_requested options) @ '':''
          @ py_format (py_get options ''image_version'' PyNone))
   \<and> (''variant'' \<notin> py_keys options \<and> ''python_version'' \<notin> py_keys options \<and>
      ''image_version'' \<notin> py_keys options \<and> ''docker_registry_url'' \<notin> py_keys options \<and>
      listen \<lparr>image_name = ''licdata-None-pythonNone'', image_version = PyNone,
              metadata = options\<rparr> = Inr results \<and>
      (\<forall>log. \<forall>x\<in>set results. transport log x = None) \<longrightarrow>
      accept_docker_image_requested listen transport options self =
        (None, self\<lparr>emitted := emitted self @ results\<rparr>))
   \<and> (''variant'' \<notin> py_keys options \<and> ''python_version'' \<notin> py_keys options \<and>
      ''image_version'' \<notin> py_keys options \<and> ''docker_registry_url'' \<notin> py_keys options \<and>
      listen_push \<lparr>image_name = ''licdata-None-pythonNone'', image_version = PyNone,
                   metadata = options, image_url = ''None/licdata-None-pythonNone:None'',
                   docker_registry_url = PyNone\<rparr> = Inr results \<and>
      (\<forall>log. \<forall>x\<in>set results. transport log x = None) \<longrightarrow>
      accept_docker_image_push_requested listen_push transport options self =
        (None, self\<lparr>emitted := emitted self @ results\<rparr>))"
proof (intro conjI impI)
  assume "fst (accept_docker_image_requested listen transport options self) = Some exn"
  then show "listen (translate_image_requested options) = Inl exn
      \<or> (\<exists>events. listen (translate_image_requested options) = Inr events
            \<and> (\<exists>log. \<exists>e\<in>set events. transport log e = Some exn))"
    by (rule accept_requested_exception)
next
  assume "fst (accept_docker_image_push_requested listen_push transport options self) = Some exn"
  then show "listen_push (translate_image_push_requested options) = Inl exn
      \<or> (\<exists>events. listen_push (translate_image_push_requested options) = Inr events
            \<and> (\<exists>log. \<exists>e\<in>set events. transport log e = Some exn))"
    by (rule accept_push_requested_exception)
next
  assume "''variant'' \<notin> py_keys options"
  then show "image_name (translate_image_requested options) =
      ''licdata-None-python'' @ py_format (py_get options ''python_version'' PyNone)"
    by (simp add: translate_fields py_get_absent)
next
  assume "''python_version'' \<notin> py_keys options"
  then show "image_name (translate_image_requested options) =
      ''licdata-'' @ py_format (py_get options ''variant'' PyNone) @ ''-pythonNone''"
    by (simp add: translate_fields py_get_absent)
next
  assume absent: "''image_version'' \<notin> py_keys options"
  then show "image_version (translate_image_requested options) = PyNone"
    by (simp add: translate_fields py_get_absent)
  from absent show "image_version (translate_image_push_requested options) = PyNone"
    by (simp add: translate_fields py_get_absent)
  from absent show "image_url (translate_image_push_requested options) =
      py_format (py_get options ''docker_registry_url'' PyNone) @ ''/''
        @ image_name (translate_image_push_requested options) @ '':None''"
    by (simp add: translate_fields py_get_absent)
next
  assume absent: "''docker_registry_url'' \<notin> py_keys options"
  then show "docker_registry_url (translate_image_push_requested options) = PyNone"
    by (simp add: translate_fields py_get_absent)
  from absent show "image_url (translate_image_push_requested options) =
      ''None/'' @ image_name (translate_image_push_requested options) @ '':''
        @ py_format (py_get options ''image_version'' PyNone)"
    by (simp add: translate_fields py_get_absent)
next
  assume all: "''variant'' \<notin> py_keys options \<and> ''python_version'' \<notin> py_keys options \<and>
      ''image_version'' \<notin> py_keys options \<and> ''docker_registry_url'' \<notin> py_keys options \<and>
      listen \<lparr>image_name = ''licdata-None-pythonNone'', image_version = PyNone,
              metadata = options\<rparr> = Inr results \<and>
      (\<forall>log. \<forall>x\<in>set results. transport log x = None)"
  then have "translate_image_requested options =
      \<lparr>image_name = ''licdata-None-pythonNone'', image_version = PyNone, metadata = options\<rparr>"
    by (intro translate_requested_all_absent) simp_all
  with all show "accept_docker_image_requested listen transport options self =
      (None, self\<lparr>emitted := emitted self @ results\<rparr>)"
    by (simp add: accept_docker_image_requested_def emit_all_taken)
next
  assume all: "''variant'' \<notin> py_keys options \<and> ''python_version'' \<notin> py_keys options \<and>
      ''image_version'' \<notin> py_keys options \<and> ''docker_registry_url'' \<notin> py_keys options \<and>
      listen_push \<lparr>image_name = ''licdata-None-pythonNone'', image_version = PyNone,
                   metadata = options, image_url = ''None/licdata-None-pythonNone:None'',
                   docker_registry_url = PyNone\<rparr> = Inr results \<and>
      (\<forall>log. \<forall>x\<in>set results. transport log x = None)"
  then have "translate_image_push_requested options =
      \<lparr>image_name = ''licdata-None-pythonNone'', image_version = PyNone,
       metadata = options, image_url = ''None/licdata-None-pythonNone:None'',
       docker_registry_url = PyNone\<rparr>"
    by (intro translate_push_requested_all_absent) simp_all
  with all show "accept_docker_image_push_requested listen_push transport options self =
      (None, self\<lparr>emitted := emitted self @ results\<rparr>)"
    by (simp add: accept_docker_image_push_requested_def emit_all_taken)
qed

text \<open>
  A request with only the Python version; a request with none of the four options,
  whose handler answers with the image URL it was given; and a handler that raises.
\<close>

theorem missing_options_raise_nothing_witness:
  "''variant'' \<notin> py_keys python_only_options
   \<and> ''image_version'' \<notin> py_keys python_only_options
   \<and> ''docker_registry_url'' \<notin> py_keys python_only_options
   \<and> image_name (translate_image_requested python_only_options) = ''licdata-None-python3.12''
   \<and> image_version (translate_image_requested python_only_options) = PyNone
   \<and> docker_registry_url (translate_image_push_requested python_only_options) = PyNone
   \<and> image_url (translate_image_push_requested python_only_options) =
       ''None/licdata-None-python3.12:None''
   \<and> ''python_version'' \<notin> py_keys azure_only_options
   \<and> accept_docker_image_push_requested (\<lambda>ev. Inr [image_url ev, image_name ev]) taking_all
       azure_only_options LicdataArtifactApp =
     (None, LicdataArtifactApp
        \<lparr>emitted := [''None/licdata-None-pythonNone:None'', ''licdata-None-pythonNone'']\<rparr>)
   \<and> accept_docker_image_requested (\<lambda>ev. Inr [image_name ev]) taking_all
       azure_only_options LicdataArtifactApp =
     (None, LicdataArtifactApp\<lparr>emitted := [''licdata-None-pythonNone'']\<rparr>)
   \<and> fst (accept_docker_image_requested (\<lambda>ev. Inl (PyException ''handler failed''))
            taking_all python_only_options LicdataArtifactApp) =
     Some (PyException ''handler failed'')"
proof -
  have absent:
    "''variant'' \<notin> py_keys python_only_options"
    "''image_version'' \<notin> py_keys python_only_options"
    "''docker_registry_url'' \<notin> py_keys python_only_options"
    by (simp_all add: python_only_options_keys)
  have none:
    "''variant'' \<notin> py_keys azure_only_options"
    "''python_version'' \<notin> py_keys azure_only_options"
    "''image_version'' \<notin> py_keys azure_only_options"
    "''docker_registry_url'' \<notin> py_keys azure_only_options"
    by (simp_all add: azure_only_options_keys)
  have present: "py_get python_only_options ''python_version'' PyNone = PyStr ''3.12''"
    by (simp add: py_get_lookup python_only_options_def dict_eval)
  note inst = missing_options_raise_nothing
    [where options = python_only_options
       and listen = "\<lambda>ev. Inl (PyException ''handler failed'')"
       and transport = taking_all and self = LicdataArtifactApp
       and exn = "PyException ''handler failed''"]
  from inst absent(1) have name: "image_name (translate_image_requested python_only_options) =
      ''licdata-None-python'' @ py_format (py_get python_only_options ''python_version'' PyNone)"
    by blast
  from inst absent(2) have version:
    "image_version (translate_image_requested python_only_options) = PyNone"
    by blast
  from inst absent(3) have registry:
    "docker_registry_url (translate_image_push_requested python_only_options) = PyNone"
    and url: "image_url (translate_image_push_requested python_only_options) =
      ''None/'' @ image_name (translate_image_push_requested python_only_options) @ '':''
        @ py_format (py_get python_only_options ''image_version'' PyNone)"
    by blast+
  have push_name: "image_name (translate_image_push_requested python_only_options) =
      ''licdata-None-python3.12''"
    using name by (simp add: translate_fields present)
  have raised:
    "fst (accept_docker_image_requested (\<lambda>ev. Inl (PyException ''handler failed''))
            taking_all python_only_options (LicdataArtifactApp :: string app)) =
       Some (PyException ''handler failed'')"
    by (simp add: accept_docker_image_requested_def)
  have push_returns:
    "accept_docker_image_push_requested (\<lambda>ev. Inr [image_url ev, image_name ev]) taking_all
       azure_only_options LicdataArtifactApp =
     (None, LicdataArtifactApp
        \<lparr>emitted := emitted LicdataArtifactApp
           @ [''None/licdata-None-pythonNone:None'', ''licdata-None-pythonNone'']\<rparr>)"
    using missing_options_raise_nothing
      [where options = azure_only_options
         and listen_push = "\<lambda>ev. Inr [image_url ev, image_name ev]"
         and transport = taking_all and self = LicdataArtifactApp
         and results = "[''None/licdata-None-pythonNone:None'', ''licdata-None-pythonNone'']"]
      none
    by (simp add: taking_all_def)
  have returns:
    "accept_docker_image_requested (\<lambda>ev. Inr [image_name ev]) taking_all
       azure_only_options LicdataArtifactApp =
     (None, LicdataArtifactApp
        \<lparr>emitted := emitted LicdataArtifactApp @ [''licdata-None-pythonNone'']\<rparr>)"
    using missing_options_raise_nothing
      [where options = azure_only_options and listen = "\<lambda>ev. Inr [image_name ev]"
         and transport = taking_all and self = LicdataArtifactApp
         and results = "[''licdata-None-pythonNone'']"]
      none
    by (simp add: taking_all_def)
  have log: "emitted (LicdataArtifactApp :: string app) = []"
    by (simp add: LicdataArtifactApp_def)
  from absent none(2) name version registry url raised push_returns returns show ?thesis
    by (simp add: present push_name py_get_absent log)
qed

section \<open>Text of a missing option\<close>

text \<open>
  C9. The text written for a missing option is Python's \<^verbatim>\<open>str(None)\<close>: when
  \<^verbatim>\<open>variant\<close> and \<^verbatim>\<open>python_version\<close> are both absent the image name is exactly
  \<^verbatim>\<open>licdata-None-pythonNone\<close>, and when \<^verbatim>\<open>docker_registry_url\<close> and \<^verbatim>\<open>image_version\<close>
  are absent too the image URL of a push request is exactly
  \<^verbatim>\<open>None/licdata-None-pythonNone:None\<close>.
\<close>

theorem absent_options_written_as_None:
  "(''variant'' \<notin> py_keys options \<and> ''python_version'' \<notin> py_keys options \<longrightarrow>
      image_name (translate_image_requested options) = ''licdata-None-pythonNone''
      \<and> image_name (translate_image_push_requested options) = ''licdata-None-pythonNone'')
   \<and> (''variant'' \<notin> py_keys options \<and> ''python_version'' \<notin> py_keys options \<and>
      ''docker_registry_url'' \<notin> py_keys options \<and> ''image_version'' \<notin> py_keys options \<longrightarrow>
      image_url (translate_image_push_requested options) =
        ''None/licdata-None-pythonNone:None'')"
  by (simp add: translate_fields py_get_absent)

text \<open>
  A request that carries only \<^verbatim>\<open>azure_base_version\<close>.
\<close>

theorem absent_options_written_as_None_witness:
  "''variant'' \<notin> py_keys azure_only_options
   \<and> ''python_version'' \<notin> py_keys azure_only_options
   \<and> ''docker_registry_url'' \<notin> py_keys azure_only_options
   \<and> ''image_version'' \<notin> py_keys azure_only_options
   \<and> image_name (translate_image_requested azure_only_options) = ''licdata-None-pythonNone''
   \<and> image_url (translate_image_push_requested azure_only_options) =
       ''None/licdata-None-pythonNone:None''"
proof -
  have absent:
    "''variant'' \<notin> py_keys azure_only_options"
    "''python_version'' \<notin> py_keys azure_only_options"
    "''docker_registry_url'' \<notin> py_keys azure_only_options"
    "''image_version'' \<notin> py_keys azure_only_options"
    by (simp_all add: azure_only_options_keys)
  with absent_options_written_as_None [of azure_only_options] show ?thesis
    by blast
qed

section \<open>What the first-class fields depend on\<close>

lemma py_get_cong:
  "py_lookup d key = py_lookup d' key \<Longrightarrow> py_get d key dflt = py_get d' key dflt"
  by (simp add: py_get_def)

lemma requested_identity_cong:
  assumes "py_lookup options ''variant'' = py_lookup options' ''variant''"
    and "py_lookup options ''python_version'' = py_lookup options' ''python_version''"
    and "py_lookup options ''image_version'' = py_lookup options' ''image_version''"
  shows "requested_identity (translate_image_requested options) =
         requested_identity (translate_image_requested options')"
  using assms [THEN py_get_cong, of PyNone]
  by (simp add: requested_identity_def translate_fields)

lemma push_requested_identity_cong:
  assumes "py_lookup options ''variant'' = py_lookup options' ''variant''"
    and "py_lookup options ''python_version'' = py_lookup options' ''python_version''"
    and "py_lookup options ''image_version'' = py_lookup options' ''image_version''"
    and "py_lookup options ''docker_registry_url'' = py_lookup options' ''docker_registry_url''"
  shows "push_requested_identity (translate_image_push_requested options) =
         push_requested_identity (translate_image_push_requested options')"
  using assms [THEN py_get_cong, of PyNone]
  by (simp add: push_requested_identity_def translate_fields)

text \<open>
  C10. Two options dictionaries that agree on \<^verbatim>\<open>variant\<close>, \<^verbatim>\<open>python_version\<close>,
  \<^verbatim>\<open>image_version\<close> and \<^verbatim>\<open>docker_registry_url\<close> give events with equal first-class
  fields (image name, image version, and for a push request image URL and registry
  URL). In particular setting \<^verbatim>\<open>azure_base_version\<close>, which both acceptors read, changes
  no first-class field; the option is found in the event's metadata, bound as in the
  options.
\<close>

theorem identity_fields_depend_on_four_options:
  "(py_lookup options ''variant'' = py_lookup options' ''variant'' \<and>
    py_lookup options ''python_version'' = py_lookup options' ''python_version'' \<and>
    py_lookup options ''image_version'' = py_lookup options' ''image_version'' \<and>
    py_lookup options ''docker_registry_url'' = py_lookup options' ''docker_registry_url'' \<longrightarrow>
      requested_identity (translate_image_requested options) =
        requested_identity (translate_image_requested options')
      \<and> push_requested_identity (translate_image_push_requested options) =
        push_requested_identity (translate_image_push_requested options'))
   \<and> requested_identity
       (translate_image_requested (py_setitem options ''azure_base_version'' azure)) =
     requested_identity (translate_image_requested options)
   \<and> push_requested_identity
       (translate_image_push_requested (py_setitem options ''azure_base_version'' azure)) =
     push_requested_identity (translate_image_push_requested options)
   \<and> py_lookup (metadata (translate_image_requested options)) ''azure_base_version'' =
     py_lookup options ''azure_base_version''
   \<and> py_lookup (metadata (translate_image_push_requested options)) ''azure_base_version'' =
     py_lookup options ''azure_base_version''"
proof (intro conjI impI)
  assume agree:
    "py_lookup options ''variant'' = py_lookup options' ''variant'' \<and>
     py_lookup options ''python_version'' = py_lookup options' ''python_version'' \<and>
     py_lookup options ''image_version'' = py_lookup options' ''image_version'' \<and>
     py_lookup options ''docker_registry_url'' = py_lookup options' ''docker_registry_url''"
  then show "requested_identity (translate_image_requested options) =
      requested_identity (translate_image_requested options')"
    by (intro requested_identity_cong) simp_all
  from agree show "push_requested_identity (translate_image_push_requested options) =
      push_requested_identity (translate_image_push_requested options')"
    by (intro push_requested_identity_cong) simp_all
next
  let ?azure = "py_setitem options ''azure_base_version'' azure"
  show "requested_identity (translate_image_requested ?azure) =
      requested_identity (translate_image_requested options)"
    by (rule requested_identity_cong) (simp_all add: py_lookup_setitem)
  show "push_requested_identity (translate_image_push_requested ?azure) =
      push_requested_identity (translate_image_push_requested options)"
    by (rule push_requested_identity_cong) (simp_all add: py_lookup_setitem)
next
  show "py_lookup (metadata (translate_image_requested options)) ''azure_base_version'' =
      py_lookup options ''azure_base_version''"
    by (simp add: translate_fields build_lookup excluded_keys_def)
  show "py_lookup (metadata (translate_image_push_requested options)) ''azure_base_version'' =
      py_lookup options ''azure_base_version''"
    by (simp add: translate_fields build_lookup excluded_keys_def)
qed

lemma reordered_push_options_lookup:
  "py_lookup reordered_push_options ''variant'' = Some (PyStr ''slim'')"
  "py_lookup reordered_push_options ''python_version'' = Some (PyStr ''3.12'')"
  "py_lookup reordered_push_options ''image_version'' = Some (PyStr ''1.0'')"
  "py_lookup reordered_push_options ''docker_registry_url'' =
     Some (PyStr ''registry.example.com'')"
  "py_lookup reordered_push_options ''azure_base_version'' = Some (PyStr ''4'')"
  by (simp_all add: reordered_push_options_def dict_eval)

text \<open>
  The sample push request and its reordering with \<^verbatim>\<open>azure_base_version\<close> added.
\<close>

theorem identity_fields_depend_on_four_options_witness:
  "py_lookup slim_push_options ''variant'' = py_lookup reordered_push_options ''variant''
   \<and> py_lookup slim_push_options ''python_version'' =
       py_lookup reordered_push_options ''python_version''
   \<and> py_lookup slim_push_options ''image_version'' =
       py_lookup reordered_push_options ''image_version''
   \<and> py_lookup slim_push_options ''docker_registry_url'' =
       py_lookup reordered_push_options ''docker_registry_url''
   \<and> py_lookup slim_push_options ''azure_base_version'' \<noteq>
       py_lookup reordered_push_options ''azure_base_version''
   \<and> requested_identity (translate_image_requested reordered_push_options) =
       (''licdata-slim-python3.12'', PyStr ''1.0'')
   \<and> push_requested_identity (translate_image_push_requested reordered_push_options) =
       (''licdata-slim-python3.12'', PyStr ''1.0'',
        ''registry.example.com/licdata-slim-python3.12:1.0'', PyStr ''registry.example.com'')"
proof -
  have agree:
    "py_lookup slim_push_options ''variant'' = py_lookup reordered_push_options ''variant''"
    "py_lookup slim_push_options ''python_version'' =
       py_lookup reordered_push_options ''python_version''"
    "py_lookup slim_push_options ''image_version'' =
       py_lookup reordered_push_options ''image_version''"
    "py_lookup slim_push_options ''docker_registry_url'' =
       py_lookup reordered_push_options ''docker_registry_url''"
    by (simp_all add: slim_push_options_lookup reordered_push_options_lookup)
  have differ: "py_lookup slim_push_options ''azure_base_version'' \<noteq>
      py_lookup reordered_push_options ''azure_base_version''"
    by (simp add: reordered_push_options_lookup slim_push_options_def dict_eval)
  from identity_fields_depend_on_four_options
    [where options = slim_push_options and options' = reordered_push_options] agree
  have same:
    "requested_identity (translate_image_requested slim_push_options) =
       requested_identity (translate_image_requested reordered_push_options)"
    "push_requested_identity (translate_image_push_requested slim_push_options) =
       push_requested_identity (translate_image_push_requested reordered_push_options)"
    by blast+
  have slim:
    "requested_identity (translate_image_requested slim_push_options) =
       (''licdata-slim-python3.12'', PyStr ''1.0'')"
    "push_requested_identity (translate_image_push_requested slim_push_options) =
       (''licdata-slim-python3.12'', PyStr ''1.0'',
        ''registry.example.com/licdata-slim-python3.12:1.0'', PyStr ''registry.example.com'')"
    by (simp_all add: requested_identity_def push_requested_identity_def translate_fields
        py_get_lookup slim_push_options_lookup)
  from agree differ same slim show ?thesis
    by simp
qed

section \<open>The store\<close>

lemma fold_store_step:
  "fold (\<lambda>item s. s[length st := metadata_step item (s ! length st)]) xs (st @ [d]) =
   st @ [fold metadata_step xs d]"
  by (induction xs arbitrary: d) simp_all

lemma build_in_store:
  assumes "options < length st"
  shows "build_docker_image_event_metadata_in st options =
         (st @ [build_docker_image_event_metadata (st ! options)], length st)"
  using assms
  by (simp add: build_docker_image_event_metadata_in_def Let_def nth_append fold_store_step
      build_docker_image_event_metadata_def)

lemma translate_requested_in_store:
  assumes "options < length st"
  shows "translate_image_requested_in st options =
         (st @ [build_docker_image_event_metadata (st ! options)],
          docker_image_requested (st ! options) (length st))"
  using assms
  by (simp add: translate_image_requested_in_def build_in_store nth_append)

lemma translate_push_requested_in_store:
  assumes "options < length st"
  shows "translate_image_push_requested_in st options =
         (st @ [build_docker_image_event_metadata (st ! options)],
          docker_image_push_requested (st ! options) (length st))"
  using assms
  by (simp add: translate_image_push_requested_in_def build_in_store nth_append)

text \<open>
  C8. Building the metadata has no effect on its argument: for every store and every
  reference \<^verbatim>\<open>options\<close> into it, after \<^verbatim>\<open>_build_docker_image_event_metadata\<close> returns
  the object \<^verbatim>\<open>options\<close> points to is the one it pointed to before, as is every other
  object of the store; the result is a reference to a newly allocated object, different
  from \<^verbatim>\<open>options\<close>, which holds the metadata.
\<close>

theorem build_metadata_leaves_options_unchanged:
  assumes "options < length st"
  shows "case build_docker_image_event_metadata_in st options of
           (st', result) \<Rightarrow>
             st' ! options = st ! options
             \<and> take (length st) st' = st
             \<and> length st' = Suc (length st)
             \<and> result = length st
             \<and> result \<noteq> options
             \<and> st' ! result = build_docker_image_event_metadata (st ! options)"
proof -
  let ?md = "build_docker_image_event_metadata (st ! options)"
  have run: "build_docker_image_event_metadata_in st options = (st @ [?md], length st)"
    by (rule build_in_store [OF assms])
  have "(st @ [?md]) ! options = st ! options"
    using assms by (simp add: nth_append)
  moreover have "take (length st) (st @ [?md]) = st"
    by simp
  moreover have "length st \<noteq> options"
    using assms by simp
  moreover have "(st @ [?md]) ! length st = ?md"
    by simp
  ultimately show ?thesis
    by (simp add: run)
qed

text \<open>
  A store holding the sample push request alone.
\<close>

theorem build_metadata_leaves_options_unchanged_witness:
  "(0::nat) < length [slim_push_options]
   \<and> (case build_docker_image_event_metadata_in [slim_push_options] 0 of
         (st', result) \<Rightarrow>
           st' ! 0 = slim_push_options \<and> take 1 st' = [slim_push_options]
           \<and> result = 1
           \<and> st' ! result =
               py_dict [(''variant'', PyStr ''slim''), (''python_version'', PyStr ''3.12'')])"
proof -
  have valid: "(0::nat) < length [slim_push_options]"
    by simp
  from build_metadata_leaves_options_unchanged [OF valid] valid show ?thesis
    by (simp add: slim_push_options_metadata split: prod.splits)
qed

text \<open>
  C7. Translating the same options twice, the second time in the store the first run
  left behind, gives structurally equal events: equal names, versions (and URLs), and
  metadata objects with equal contents, although the two metadata references differ.
  Both events equal the translation of the dictionary \<^verbatim>\<open>options\<close> points to; nothing
  else is read.
\<close>

theorem translation_repeatable:
  assumes "options < length st"
  shows "(case translate_image_requested_in st options of
            (st1, ev1) \<Rightarrow>
              (case translate_image_requested_in st1 options of
                 (st2, ev2) \<Rightarrow>
                   requested_value st1 ev1 = translate_image_requested (st ! options)
                   \<and> requested_value st2 ev2 = requested_value st1 ev1
                   \<and> requested_value st2 ev1 = requested_value st2 ev2
                   \<and> metadata ev1 \<noteq> metadata ev2))
         \<and> (case translate_image_push_requested_in st options of
            (st1, ev1) \<Rightarrow>
              (case translate_image_push_requested_in st1 options of
                 (st2, ev2) \<Rightarrow>
                   push_requested_value st1 ev1 = translate_image_push_requested (st ! options)
                   \<and> push_requested_value st2 ev2 = push_requested_value st1 ev1
                   \<and> push_requested_value st2 ev1 = push_requested_value st2 ev2
                   \<and> metadata ev1 \<noteq> metadata ev2))"
proof -
  let ?md = "build_docker_image_event_metadata (st ! options)"
  let ?st1 = "st @ [?md]"
  have valid1: "options < length ?st1"
    using assms by simp
  have same: "?st1 ! options = st ! options"
    using assms by (simp add: nth_append)
  have first: "translate_image_requested_in st options =
      (?st1, docker_image_requested (st ! options) (length st))"
    by (rule translate_requested_in_store [OF assms])
  have second: "translate_image_requested_in ?st1 options =
      (?st1 @ [?md], docker_image_requested (st ! options) (length ?st1))"
    using translate_requested_in_store [OF valid1] by (simp only: same)
  have requested: "case translate_image_requested_in st options of
      (st1, ev1) \<Rightarrow>
        (case translate_image_requested_in st1 options of
           (st2, ev2) \<Rightarrow>
             requested_value st1 ev1 = translate_image_requested (st ! options)
             \<and> requested_value st2 ev2 = requested_value st1 ev1
             \<and> requested_value st2 ev1 = requested_value st2 ev2
             \<and> metadata ev1 \<noteq> metadata ev2)"
    by (simp add: first second requested_value_def requested_fields
        translate_image_requested_def docker_image_requested_def Let_def nth_append)
  have first_push: "translate_image_push_requested_in st options =
      (?st1, docker_image_push_requested (st ! options) (length st))"
    by (rule translate_push_requested_in_store [OF assms])
  have second_push: "translate_image_push_requested_in ?st1 options =
      (?st1 @ [?md], docker_image_push_requested (st ! options) (length ?st1))"
    using translate_push_requested_in_store [OF valid1] by (simp only: same)
  have push: "case translate_image_push_requested_in st options of
      (st1, ev1) \<Rightarrow>
        (case translate_image_push_requested_in st1 options of
           (st2, ev2) \<Rightarrow>
             push_requested_value st1 ev1 = translate_image_push_requested (st ! options)
             \<and> push_requested_value st2 ev2 = push_requested_value st1 ev1
             \<and> push_requested_value st2 ev1 = push_requested_value st2 ev2
             \<and> metadata ev1 \<noteq> metadata ev2)"
    by (simp add: first_push second_push push_requested_value_def push_requested_fields
        translate_image_push_requested_def docker_image_push_requested_def Let_def nth_append)
  from requested push show ?thesis ..
qed

text \<open>
  Two build requests and two push requests on the sample push options.
\<close>

theorem translation_repeatable_witness:
  "(0::nat) < length [slim_push_options]
   \<and> (case translate_image_requested_in [slim_push_options] 0 of
         (st1, ev1) \<Rightarrow>
           (case translate_image_requested_in st1 0 of
              (st2, ev2) \<Rightarrow>
                metadata ev1 = 1 \<and> metadata ev2 = 2
                \<and> requested_value st2 ev1 = requested_value st2 ev2
                \<and> image_name (requested_value st2 ev2) = ''licdata-slim-python3.12''))
   \<and> (case translate_image_push_requested_in [slim_push_options] 0 of
         (st1, ev1) \<Rightarrow>
           (case translate_image_push_requested_in st1 0 of
              (st2, ev2) \<Rightarrow>
                metadata ev1 = 1 \<and> metadata ev2 = 2
                \<and> push_requested_value st2 ev1 = push_requested_value st2 ev2
                \<and> image_url (push_requested_value st2 ev2) =
                    ''registry.example.com/licdata-slim-python3.12:1.0''))"
proof -
  have valid: "(0::nat) < length [slim_push_options]"
    by simp
  let ?md = "build_docker_image_event_metadata slim_push_options"
  have first: "translate_image_requested_in [slim_push_options] 0 =
      ([slim_push_options, ?md], docker_image_requested slim_push_options 1)"
    using translate_requested_in_store [OF valid] by simp
  have second: "translate_image_requested_in [slim_push_options, ?md] 0 =
      ([slim_push_options, ?md, ?md], docker_image_requested slim_push_options 2)"
    using translate_requested_in_store [of 0 "[slim_push_options, ?md]"]
    by (simp add: numeral_2_eq_2)
  have first_push: "translate_image_push_requested_in [slim_push_options] 0 =
      ([slim_push_options, ?md], docker_image_push_requested slim_push_options 1)"
    using translate_push_requested_in_store [OF valid] by simp
  have second_push: "translate_image_push_requested_in [slim_push_options, ?md] 0 =
      ([slim_push_options, ?md, ?md], docker_image_push_requested slim_push_options 2)"
    using translate_push_requested_in_store [of 0 "[slim_push_options, ?md]"]
    by (simp add: numeral_2_eq_2)
  from translation_repeatable [OF valid] valid show ?thesis
    by (simp add: first second first_push second_push requested_value_def
        push_requested_value_def requested_fields push_requested_fields py_get_lookup
        slim_push_options_lookup)
qed

end
